theory Spec2Isabelle
  imports Complex_Main "HOL-Library.Sublist"
begin

section \<open>Numbers and strings of the host language\<close>

text \<open>
  A finite JavaScript number is modelled by a real. The only place where the component can
  produce a non-number is \<^verbatim>\<open>face.probability[0]\<close> on an empty array, which reads
  \<^verbatim>\<open>undefined\<close> and turns into \<^verbatim>\<open>NaN\<close> in arithmetic; \<open>NaN\<close> stands for both.
\<close>

datatype jsnum = Num real | NaN

fun jadd :: "jsnum \<Rightarrow> jsnum \<Rightarrow> jsnum" where
  "jadd (Num a) (Num b) = Num (a + b)"
| "jadd _ _ = NaN"

fun jdiv :: "jsnum \<Rightarrow> real \<Rightarrow> jsnum" where
  "jdiv (Num a) n = Num (a / n)"
| "jdiv NaN n = NaN"

fun jmul :: "real \<Rightarrow> jsnum \<Rightarrow> jsnum" where
  "jmul a (Num b) = Num (a * b)"
| "jmul a NaN = NaN"

text \<open>A comparison with \<open>NaN\<close> (or \<^verbatim>\<open>undefined\<close>) is false.\<close>

fun jgt :: "jsnum \<Rightarrow> real \<Rightarrow> bool" where
  "jgt (Num a) b = (a > b)"
| "jgt NaN b = False"

text \<open>Decimal rendering of an integer, as a template literal renders it.\<close>

fun show_nat :: "nat \<Rightarrow> string" where
  "show_nat n = (if n < 10 then [''0123456789'' ! n]
                 else show_nat (n div 10) @ [''0123456789'' ! (n mod 10)])"

definition show_int :: "int \<Rightarrow> string" where
  "show_int i = (if i < 0 then ''-'' @ show_nat (nat (- i)) else show_nat (nat i))"

text \<open>\<^verbatim>\<open>Math.round\<close> rounds to the nearest integer, halves upwards.\<close>

definition Math_round :: "real \<Rightarrow> int" where
  "Math_round r = \<lfloor>r + 1 / 2\<rfloor>"

text \<open>\<^verbatim>\<open>a % 1\<close>: the remainder has the sign of the dividend.\<close>

definition mod1 :: "real \<Rightarrow> real" where
  "mod1 a = (if 0 \<le> a then a - of_int \<lfloor>a\<rfloor> else a - of_int \<lceil>a\<rceil>)"

section \<open>Detection results\<close>

datatype detector_type = tensorflow | native

text \<open>
  \<^verbatim>\<open>FaceDetection\<close>: the two optional methods are recorded by their presence; what a
  call returns is an input of the frame.
\<close>

record FaceDetection =
  dtype :: detector_type
  has_detectFaces :: bool
  has_detect :: bool

record FaceLandmark =
  lm_x :: real
  lm_y :: real

record DOMRectReadOnly =
  rect_x :: real
  rect_y :: real
  rect_width :: real
  rect_height :: real

record Face =
  topLeft :: "(real \<times> real) option"
  bottomRight :: "(real \<times> real) option"
  probability :: "real list option"
  landmarks :: "FaceLandmark list option"
  boundingBox :: "DOMRectReadOnly option"

section \<open>Recording objects\<close>

record Blob =
  bytes :: "nat list"
  mime :: string

definition blob_size :: "Blob \<Rightarrow> nat" where
  "blob_size b = length (bytes b)"

datatype RecordingState = inactive | recording | paused

record MediaRecorder =
  state :: RecordingState

record MediaStream =
  stream_id :: nat
  tracks_live :: bool

section \<open>The canvas\<close>

text \<open>
  A style built by a template literal with a number in it, \<^verbatim>\<open>rgba(C, ${a})\<close>, is kept as
  \<open>Rgba C a\<close>: the fixed text and the number.
\<close>

datatype paint = Color string | Rgba string real | Gradient

datatype canvas_op =
    ClearRect real real real real
  | DrawImage real real real real
  | StrokeStyle paint
  | LineWidth real
  | ShadowColor string
  | ShadowBlur real
  | BeginPath
  | MoveTo real real
  | LineTo real real
  | Stroke
  | Font string
  | MeasureText string
  | CreateLinearGradient real real real real
  | AddColorStop real string
  | FillStyle paint
  | FillRect real real jsnum real
  | FillText string real real
  | Arc real real real real real
  | Fill

text \<open>The 2D context: the argument \<open>ctx\<close>. Its text metrics are the platform's.\<close>

record CanvasRenderingContext2D =
  measureText :: "string \<Rightarrow> string \<Rightarrow> real"

section \<open>The component and the platform around it\<close>

datatype effect =
    RequestAnimationFrame nat
  | CancelAnimationFrame nat
  | ConsoleWarn string
  | ConsoleError string
  | ImportTfjs
  | ImportBlazeface
  | TfReady
  | BlazefaceLoad
  | ReadWindowFaceDetector
  | NewFaceDetector
  | GetUserMedia
  | AddLoadedDataListener
  | VideoPlay
  | CaptureStream
  | NewMediaRecorder
  | RecorderStart
  | RecorderStop
  | CreateObjectURL Blob
  | AppendAnchor
  | ClickAnchor string
  | RemoveAnchor
  | RevokeObjectURL

record DetectionStats =
  totalDetections :: int
  avgConfidence :: jsnum

text \<open>
  The React state of \<^verbatim>\<open>FaceTracker\<close> (the seven \<^verbatim>\<open>useState\<close> cells), the ref
  \<^verbatim>\<open>animationFrameRef\<close>, and the platform state the component acts on: the stream
  attached to the video element, the callbacks the frame scheduler holds, the clock
  (\<open>clock w k\<close> is what the \<open>k\<close>-th call of \<^verbatim>\<open>Date.now()\<close> returns), what has
  been painted, and the other platform calls in the order they were made.
\<close>

record world =
  isLoading :: bool
  error :: string
  faceDetector :: "FaceDetection option"
  isRecording :: bool
  mediaRecorder :: "MediaRecorder option"
  faceCount :: int
  detectionStats :: DetectionStats
  animationFrameRef :: nat
  srcObject :: "MediaStream option"
  loadedDataListeners :: nat
  pendingFrames :: "nat list"
  nextHandle :: nat
  clock :: "nat \<Rightarrow> nat"
  clockReads :: nat
  canvas :: "canvas_op list"
  effects :: "effect list"

definition Date_now :: "world \<Rightarrow> nat" where
  "Date_now w = clock w (clockReads w)"

definition paint_ops :: "canvas_op list \<Rightarrow> world \<Rightarrow> world" where
  "paint_ops ops w = w\<lparr>canvas := canvas w @ ops\<rparr>"

definition perform :: "effect list \<Rightarrow> world \<Rightarrow> world" where
  "perform es w = w\<lparr>effects := effects w @ es\<rparr>"

text \<open>What a call painted: the operations added to the canvas between \<open>w\<close> and \<open>w'\<close>.\<close>

definition painted :: "world \<Rightarrow> world \<Rightarrow> canvas_op list" where
  "painted w w' = drop (length (canvas w)) (canvas w')"

section \<open>The draw routines\<close>

definition label_font :: string where
  "label_font = ''bold 14px '' @ [CHR 0x22] @ ''Courier New'' @ [CHR 0x22] @ '', monospace''"

text \<open>The separator of the label, byte for byte as the source file has it.\<close>

definition label_separator :: string where
  "label_separator =
     '' '' @ [CHR 0xE2, CHR 0x80, CHR 0x9A, CHR 0xC3, CHR 0x84, CHR 0xC2, CHR 0xA2] @ '' ''"

definition confidenceText :: "jsnum \<Rightarrow> string" where
  "confidenceText confidence =
     (case confidence of
        Num c \<Rightarrow> show_int (Math_round (c * 100)) @ ''%''
      | NaN \<Rightarrow> ''NaN%'')"

definition confidenceColor :: "jsnum \<Rightarrow> string" where
  "confidenceColor confidence =
     (if jgt confidence 0.8 then ''#00ff00''
      else if jgt confidence 0.6 then ''#ffff00'' else ''#ff9500'')"

definition boxOps ::
  "CanvasRenderingContext2D \<Rightarrow> nat \<Rightarrow> real \<Rightarrow> real \<Rightarrow> real \<Rightarrow> real \<Rightarrow> string \<Rightarrow> jsnum
     \<Rightarrow> canvas_op list" where
  "boxOps ctx now x y width height label confidence =
     (let time = real now / 1000;
          pulse = sin (time * 3) * 0.5 + 0.5;
          cornerSize = min width height * 0.15;
          scanY = y + height * mod1 (time * 2);
          labelText = label @ label_separator @ confidenceText confidence;
          labelWidth = measureText ctx label_font labelText + 16;
          labelHeight = 24;
          barWidth = labelWidth - 16;
          barHeight = 3;
          barY = y - 8
      in [StrokeStyle (Rgba (if jgt confidence 0.8 then ''0, 255, 0''
                             else if jgt confidence 0.6 then ''255, 255, 0''
                             else ''255, 149, 0'') (0.7 + pulse * 0.3)),
          LineWidth 3,
          ShadowColor (confidenceColor confidence),
          ShadowBlur (15 + pulse * 10),
          LineWidth 4,
          BeginPath, MoveTo x (y + cornerSize), LineTo x y, LineTo (x + cornerSize) y, Stroke,
          BeginPath, MoveTo (x + width - cornerSize) y, LineTo (x + width) y,
            LineTo (x + width) (y + cornerSize), Stroke,
          BeginPath, MoveTo x (y + height - cornerSize), LineTo x (y + height),
            LineTo (x + cornerSize) (y + height), Stroke,
          BeginPath, MoveTo (x + width - cornerSize) (y + height),
            LineTo (x + width) (y + height), LineTo (x + width) (y + height - cornerSize), Stroke,
          StrokeStyle (Rgba ''0, 255, 255'' (0.5 + pulse * 0.5)),
          LineWidth 2,
          BeginPath, MoveTo x scanY, LineTo (x + width) scanY, Stroke,
          ShadowBlur 0,
          Font label_font,
          MeasureText labelText,
          CreateLinearGradient x (y - labelHeight - 5) x (y - 5),
          AddColorStop 0 ''rgba(0, 0, 0, 0.8)'',
          AddColorStop 1 ''rgba(0, 0, 0, 0.6)'',
          FillStyle Gradient,
          FillRect x (y - labelHeight - 5) (Num labelWidth) labelHeight,
          FillStyle (Color (confidenceColor confidence)),
          FillText labelText (x + 8) (y - 12),
          FillStyle (Color ''rgba(255, 255, 255, 0.2)''),
          FillRect (x + 8) barY (Num barWidth) barHeight,
          FillStyle (Color (confidenceColor confidence)),
          FillRect (x + 8) barY (jmul barWidth confidence) barHeight])"

text \<open>
  \<^verbatim>\<open>drawAdvancedBoundingBox\<close> reads the clock once (\<^verbatim>\<open>Date.now()\<close> in its first
  line) and paints.
\<close>

definition drawAdvancedBoundingBox ::
  "CanvasRenderingContext2D \<Rightarrow> real \<Rightarrow> real \<Rightarrow> real \<Rightarrow> real \<Rightarrow> string \<Rightarrow> jsnum
     \<Rightarrow> world \<Rightarrow> world" where
  "drawAdvancedBoundingBox ctx x y width height label confidence w =
     paint_ops (boxOps ctx (Date_now w) x y width height label confidence)
       (w\<lparr>clockReads := Suc (clockReads w)\<rparr>)"

definition landmarkOps :: "nat \<Rightarrow> FaceLandmark list \<Rightarrow> canvas_op list" where
  "landmarkOps now lms =
     (let time = real now / 1000;
          pulse = sin (time * 4) * 0.5 + 0.5
      in [FillStyle (Rgba ''255, 0, 150'' (0.8 + pulse * 0.2)),
          ShadowColor ''#ff0096'',
          ShadowBlur 8]
         @ concat (map (\<lambda>landmark.
              (let size = 2 + pulse
               in [BeginPath, Arc (lm_x landmark) (lm_y landmark) size 0 (2 * pi), Fill])) lms)
         @ [ShadowBlur 0])"

definition drawFaceLandmarks ::
  "CanvasRenderingContext2D \<Rightarrow> FaceLandmark list \<Rightarrow> world \<Rightarrow> world" where
  "drawFaceLandmarks ctx lms w =
     paint_ops (landmarkOps (Date_now w) lms) (w\<lparr>clockReads := Suc (clockReads w)\<rparr>)"

section \<open>The frame scheduler\<close>

text \<open>
  \<^verbatim>\<open>animationFrameRef.current = requestAnimationFrame(detectFaces)\<close>: the scheduler hands
  out a fresh non-zero handle and holds the callback until it runs or is cancelled.
\<close>

definition requestAnimationFrame :: "world \<Rightarrow> world" where
  "requestAnimationFrame w =
     (let h = nextHandle w
      in (perform [RequestAnimationFrame h] w)
           \<lparr>animationFrameRef := h, pendingFrames := pendingFrames w @ [h], nextHandle := Suc h\<rparr>)"

definition cancelAnimationFrame :: "nat \<Rightarrow> world \<Rightarrow> world" where
  "cancelAnimationFrame h w =
     (perform [CancelAnimationFrame h] w)\<lparr>pendingFrames := removeAll h (pendingFrames w)\<rparr>"

section \<open>Detector bootstrap\<close>

text \<open>What the platform answers during the bootstrap: each flag says that the step succeeds.\<close>

record detector_platform =
  importTfjs :: bool
  importBlazeface :: bool
  tfReady :: bool
  blazefaceLoad :: bool
  windowFaceDetector :: bool
  newFaceDetector :: bool

definition no_detector_message :: string where
  "no_detector_message =
     ''Face detection not available in this browser. Please use Chrome/Edge for best results.''"

definition tensorflow_failed :: "world \<Rightarrow> bool \<times> world" where
  "tensorflow_failed w = (False, perform [ConsoleWarn ''TensorFlow.js initialization failed:''] w)"

definition initializeTensorFlowDetection :: "detector_platform \<Rightarrow> world \<Rightarrow> bool \<times> world" where
  "initializeTensorFlowDetection p w =
     (let w1 = perform [ImportTfjs] w in
      if importTfjs p then
        (let w2 = perform [ImportBlazeface] w1 in
         if importBlazeface p then
           (let w3 = perform [TfReady] w2 in
            if tfReady p then
              (let w4 = perform [BlazefaceLoad] w3 in
               if blazefaceLoad p then
                 (True, w4\<lparr>faceDetector :=
                            Some \<lparr>dtype = tensorflow, has_detectFaces = True, has_detect = False\<rparr>,
                          isLoading := False\<rparr>)
               else tensorflow_failed w4)
            else tensorflow_failed w3)
         else tensorflow_failed w2)
      else tensorflow_failed w1)"

definition initializeNativeDetection :: "detector_platform \<Rightarrow> world \<Rightarrow> bool \<times> world" where
  "initializeNativeDetection p w =
     (let w1 = perform [ReadWindowFaceDetector] w in
      if windowFaceDetector p then
        (let w2 = perform [NewFaceDetector] w1 in
         if newFaceDetector p then
           (True, w2\<lparr>faceDetector :=
                      Some \<lparr>dtype = native, has_detectFaces = False, has_detect = True\<rparr>,
                    isLoading := False\<rparr>)
         else (False, perform [ConsoleWarn ''Native Face Detection not supported:''] w2))
      else (False, w1))"

definition initializeFaceDetection :: "detector_platform \<Rightarrow> world \<Rightarrow> world" where
  "initializeFaceDetection p w =
     (let (tfOk, w1) = initializeTensorFlowDetection p (w\<lparr>isLoading := True\<rparr>) in
      if tfOk then w1
      else (let (nativeOk, w2) = initializeNativeDetection p w1 in
            if nativeOk then w2
            else w2\<lparr>error := no_detector_message, isLoading := False\<rparr>))"

section \<open>The detection loop\<close>

text \<open>
  What one invocation of \<^verbatim>\<open>detectFaces\<close> finds: the two refs, the video's ready state,
  the result of \<^verbatim>\<open>canvas.getContext('2d')\<close>, and what the detector's promise settles to
  (\<open>None\<close> when it rejects).
\<close>

record frame_input =
  video :: bool
  canvasEl :: bool
  readyState :: nat
  getContext :: "CanvasRenderingContext2D option"
  canvasWidth :: real
  canvasHeight :: real
  detection :: "Face list option"

definition detect :: "FaceDetection \<Rightarrow> frame_input \<Rightarrow> Face list option" where
  "detect d i =
     (if dtype d = tensorflow \<and> has_detectFaces d then detection i
      else if dtype d = native \<and> has_detect d then
        map_option (map (\<lambda>face. \<lparr>topLeft = None, bottomRight = None, probability = None,
                                   landmarks = None, boundingBox = boundingBox face\<rparr>))
          (detection i)
      else Some [])"

text \<open>The confidence of one face, as the body of the \<^verbatim>\<open>forEach\<close> computes it.\<close>

definition confidence_of :: "FaceDetection \<Rightarrow> Face \<Rightarrow> jsnum" where
  "confidence_of d face =
     (if dtype d = tensorflow then
        (case probability face of
           Some ps \<Rightarrow> (case ps of [] \<Rightarrow> NaN | p # _ \<Rightarrow> Num p)
         | None \<Rightarrow> Num 1)
      else Num 1)"

definition drawFace ::
  "FaceDetection \<Rightarrow> CanvasRenderingContext2D \<Rightarrow> nat \<Rightarrow> Face \<Rightarrow> world \<Rightarrow> world" where
  "drawFace d ctx index face w =
     (if dtype d = tensorflow then
        (let (x, y) = (case topLeft face of Some p \<Rightarrow> p | None \<Rightarrow> (0, 0));
             (x2, y2) = (case bottomRight face of Some p \<Rightarrow> p | None \<Rightarrow> (0, 0));
             w1 = drawAdvancedBoundingBox ctx x y (x2 - x) (y2 - y)
                    (''Face '' @ show_nat (index + 1)) (confidence_of d face) w
         in (case landmarks face of
               Some lms \<Rightarrow> drawFaceLandmarks ctx lms w1
             | None \<Rightarrow> w1))
      else (case boundingBox face of
              Some r \<Rightarrow>
                drawAdvancedBoundingBox ctx (rect_x r) (rect_y r) (rect_width r) (rect_height r)
                  (''Face '' @ show_nat (index + 1)) (confidence_of d face) w
            | None \<Rightarrow> w))"

text \<open>\<^verbatim>\<open>faces.forEach((face, index) => ...)\<close> with the running \<^verbatim>\<open>totalConfidence\<close>.\<close>

fun forEachFace ::
  "FaceDetection \<Rightarrow> CanvasRenderingContext2D \<Rightarrow> nat \<Rightarrow> Face list \<Rightarrow> world \<times> jsnum
     \<Rightarrow> world \<times> jsnum" where
  "forEachFace d ctx index [] acc = acc"
| "forEachFace d ctx index (face # rest) (w, totalConfidence) =
     forEachFace d ctx (Suc index) rest
       (drawFace d ctx index face w, jadd totalConfidence (confidence_of d face))"

text \<open>
  The \<^verbatim>\<open>try\<close> block of \<^verbatim>\<open>detectFaces\<close>. The awaited detection is the step that can
  fail; a rejected detection lands in the \<^verbatim>\<open>catch\<close>, before \<^verbatim>\<open>setFaceCount\<close>.
  An invocation is taken as a whole: nothing else runs while it awaits.
\<close>

definition frameBody :: "FaceDetection \<Rightarrow> CanvasRenderingContext2D \<Rightarrow> frame_input \<Rightarrow> world \<Rightarrow> world" where
  "frameBody d ctx i w =
     (let w1 = paint_ops [ClearRect 0 0 (canvasWidth i) (canvasHeight i),
                          DrawImage 0 0 (canvasWidth i) (canvasHeight i)] w
      in (case detect d i of
            None \<Rightarrow> perform [ConsoleWarn ''Face detection error:''] w1
          | Some faces \<Rightarrow>
              (let w2 = w1\<lparr>faceCount := int (length faces)\<rparr>;
                   (w3, totalConfidence) = forEachFace d ctx 0 faces (w2, Num 0)
               in if length faces > 0 then
                    w3\<lparr>detectionStats :=
                         \<lparr>totalDetections = totalDetections (detectionStats w3) + int (length faces),
                          avgConfidence = jdiv totalConfidence (real (length faces))\<rparr>\<rparr>
                  else w3)))"

definition detectFaces :: "frame_input \<Rightarrow> world \<Rightarrow> world" where
  "detectFaces i w =
     (if \<not> (video i \<and> canvasEl i \<and> faceDetector w \<noteq> None \<and> readyState i = 4) then
        requestAnimationFrame w
      else (case faceDetector w of
              None \<Rightarrow> requestAnimationFrame w
            | Some d \<Rightarrow>
                (case getContext i of
                   None \<Rightarrow> requestAnimationFrame w
                 | Some ctx \<Rightarrow> requestAnimationFrame (frameBody d ctx i w))))"

definition resetStats :: "world \<Rightarrow> world" where
  "resetStats w = w\<lparr>detectionStats := \<lparr>totalDetections = 0, avgConfidence = Num 0\<rparr>\<rparr>"

section \<open>Camera acquisition and teardown\<close>

text \<open>
  What the camera effect finds: the two refs, what \<^verbatim>\<open>getUserMedia\<close> settles to
  (\<open>None\<close> when it rejects), and whether \<^verbatim>\<open>video.play()\<close> resolves.
\<close>

record camera_input =
  cam_video :: bool
  cam_canvas :: bool
  getUserMedia :: "MediaStream option"
  play :: bool

definition camera_message :: string where
  "camera_message = ''Camera access denied or not available. Please grant camera permissions.''"

definition camera_failed :: "world \<Rightarrow> world" where
  "camera_failed w = (perform [ConsoleError ''Error accessing camera:''] w)\<lparr>error := camera_message\<rparr>"

definition initializeCamera :: "camera_input \<Rightarrow> world \<Rightarrow> world" where
  "initializeCamera i w =
     (if cam_video i \<and> cam_canvas i \<and> \<not> isLoading w \<and> faceDetector w \<noteq> None then
        (let w1 = perform [GetUserMedia] w in
         case getUserMedia i of
           None \<Rightarrow> camera_failed w1
         | Some stream \<Rightarrow>
             (let w2 = w1\<lparr>srcObject := Some stream\<rparr>;
                  w3 = (perform [AddLoadedDataListener] w2)
                         \<lparr>loadedDataListeners := Suc (loadedDataListeners w2)\<rparr>;
                  w4 = perform [VideoPlay] w3
              in if play i then w4 else camera_failed w4))
      else w)"

text \<open>The body of the camera effect, run when its dependencies change.\<close>

definition cameraEffect :: "camera_input \<Rightarrow> world \<Rightarrow> world" where
  "cameraEffect i w = (if \<not> isLoading w \<and> faceDetector w \<noteq> None then initializeCamera i w else w)"

text \<open>The function the camera effect returns: all that runs on teardown.\<close>

definition cleanup :: "world \<Rightarrow> world" where
  "cleanup w =
     (if animationFrameRef w \<noteq> 0 then cancelAnimationFrame (animationFrameRef w) w else w)"

section \<open>Recording\<close>

record recording_input =
  rec_canvas :: bool
  captureStream :: bool
  newMediaRecorder :: bool
  recorderStart :: bool

definition recording_message :: string where
  "recording_message = ''Recording not supported in this browser''"

definition recording_failed :: "world \<Rightarrow> world" where
  "recording_failed w = (perform [ConsoleError ''Recording error:''] w)\<lparr>error := recording_message\<rparr>"

definition startRecording :: "recording_input \<Rightarrow> world \<Rightarrow> world" where
  "startRecording i w =
     (if \<not> rec_canvas i then w
      else (let w1 = perform [CaptureStream] w in
            if captureStream i then
              (let w2 = perform [NewMediaRecorder] w1 in
               if newMediaRecorder i then
                 (let w3 = perform [RecorderStart] w2 in
                  if recorderStart i then
                    w3\<lparr>mediaRecorder := Some \<lparr>state = recording\<rparr>,
                       isRecording := True\<rparr>
                  else recording_failed w3)
               else recording_failed w2)
            else recording_failed w1))"

definition stopRecording :: "world \<Rightarrow> world" where
  "stopRecording w =
     (case mediaRecorder w of
        None \<Rightarrow> w
      | Some r \<Rightarrow>
          if state r \<noteq> inactive then
            (perform [RecorderStop] w)\<lparr>mediaRecorder := None, isRecording := False\<rparr>
          else w)"

text \<open>The two handlers \<^verbatim>\<open>startRecording\<close> installs, over the array \<^verbatim>\<open>chunks\<close> they share.\<close>

definition ondataavailable :: "Blob \<Rightarrow> Blob list \<Rightarrow> Blob list" where
  "ondataavailable d cs = (if blob_size d > 0 then cs @ [d] else cs)"

definition new_Blob :: "Blob list \<Rightarrow> string \<Rightarrow> Blob" where
  "new_Blob parts ty = \<lparr>bytes = concat (map bytes parts), mime = ty\<rparr>"

text \<open>
  The name of the download, from what \<^verbatim>\<open>new Date().toISOString()\<close> returned:
  \<^verbatim>\<open>slice(0, 19)\<close>, every colon replaced by a dash.
\<close>

definition download_name :: "string \<Rightarrow> string" where
  "download_name stamp =
     ''face-tracking-'' @ map (\<lambda>c. if c = CHR '':'' then CHR ''-'' else c) (take 19 stamp) @ ''.webm''"

definition onstop :: "string \<Rightarrow> Blob list \<Rightarrow> world \<Rightarrow> world" where
  "onstop stamp cs w =
     perform [CreateObjectURL (new_Blob cs ''video/webm''), AppendAnchor,
              ClickAnchor (download_name stamp), RemoveAnchor, RevokeObjectURL] w"

text \<open>
  A recording from start to stop: the recorder delivers \<open>ds\<close>, one blob per
  \<^verbatim>\<open>dataavailable\<close> event, then fires \<^verbatim>\<open>stop\<close>.
\<close>

definition recording_session :: "Blob list \<Rightarrow> string \<Rightarrow> world \<Rightarrow> world" where
  "recording_session ds stamp w = onstop stamp (foldl (\<lambda>cs d. ondataavailable d cs) [] ds) w"

section \<open>Runs of the component\<close>

datatype event = Frame frame_input | ResetStats

fun step :: "world \<Rightarrow> event \<Rightarrow> world" where
  "step w (Frame i) = detectFaces i w"
| "step w ResetStats = resetStats w"

definition run :: "world \<Rightarrow> event list \<Rightarrow> world" where
  "run w evs = foldl step w evs"

text \<open>The component as mounted: the initial values of its state cells and refs.\<close>

definition mounted :: "(nat \<Rightarrow> nat) \<Rightarrow> world" where
  "mounted clk =
     \<lparr>isLoading = True, error = [], faceDetector = None, isRecording = False,
      mediaRecorder = None, faceCount = 0,
      detectionStats = \<lparr>totalDetections = 0, avgConfidence = Num 0\<rparr>,
      animationFrameRef = 0, srcObject = None, loadedDataListeners = 0,
      pendingFrames = [], nextHandle = 1, clock = clk, clockReads = 0,
      canvas = [], effects = []\<rparr>"

section \<open>Notions the properties are stated with\<close>

text \<open>
  The faces one invocation of \<^verbatim>\<open>detectFaces\<close> gets from the detector held in the state:
  \<open>None\<close> when the invocation returns before the detection, or the detection is rejected.
\<close>

definition frame_faces :: "FaceDetection option \<Rightarrow> frame_input \<Rightarrow> Face list option" where
  "frame_faces fd i =
     (case fd of
        None \<Rightarrow> None
      | Some d \<Rightarrow>
          if video i \<and> canvasEl i \<and> readyState i = 4 then
            (case getContext i of None \<Rightarrow> None | Some ctx \<Rightarrow> detect d i)
          else None)"

text \<open>The mean of the confidences of a list of faces, summed from the left as the loop does.\<close>

definition mean_confidence :: "FaceDetection \<Rightarrow> Face list \<Rightarrow> jsnum" where
  "mean_confidence d faces =
     jdiv (foldl jadd (Num 0) (map (confidence_of d) faces)) (real (length faces))"

text \<open>
  The running average as the specification words it: the mean over all detections counted
  since the last reset.
\<close>

fun detections_since_reset :: "FaceDetection option \<Rightarrow> Face list \<Rightarrow> event list \<Rightarrow> Face list" where
  "detections_since_reset fd acc [] = acc"
| "detections_since_reset fd acc (ResetStats # evs) = detections_since_reset fd [] evs"
| "detections_since_reset fd acc (Frame i # evs) =
     detections_since_reset fd
       (acc @ (case frame_faces fd i of Some faces \<Rightarrow> faces | None \<Rightarrow> [])) evs"

definition running_average :: "FaceDetection \<Rightarrow> event list \<Rightarrow> jsnum" where
  "running_average d evs = mean_confidence d (detections_since_reset (Some d) [] evs)"

text \<open>
  The average of the latest frame that detected a face: the events are read from the most
  recent one backwards; \<open>a\<close> is the value before the first of them.
\<close>

fun latest_frame_average :: "FaceDetection option \<Rightarrow> jsnum \<Rightarrow> event list \<Rightarrow> jsnum" where
  "latest_frame_average fd a [] = a"
| "latest_frame_average fd a (ResetStats # earlier) = Num 0"
| "latest_frame_average fd a (Frame i # earlier) =
     (case (fd, frame_faces fd i) of
        (Some d, Some (face # faces)) \<Rightarrow> mean_confidence d (face # faces)
      | _ \<Rightarrow> latest_frame_average fd a earlier)"

text \<open>What a call did on the platform: the effects added between \<open>w\<close> and \<open>w'\<close>.\<close>

definition performed :: "world \<Rightarrow> world \<Rightarrow> effect list" where
  "performed w w' = drop (length (effects w)) (effects w')"

fun is_request :: "effect \<Rightarrow> bool" where
  "is_request (RequestAnimationFrame h) = True"
| "is_request _ = False"

text \<open>\<open>w'\<close> differs from \<open>w\<close> at most in what is painted and in the clock reads.\<close>

definition only_painted :: "world \<Rightarrow> world \<Rightarrow> bool" where
  "only_painted w w' = (w'\<lparr>canvas := [], clockReads := 0\<rparr> = w\<lparr>canvas := [], clockReads := 0\<rparr>)"

section \<open>Sample inputs\<close>

definition blazeface :: FaceDetection where
  "blazeface = \<lparr>dtype = tensorflow, has_detectFaces = True, has_detect = False\<rparr>"

definition fixed_pitch :: CanvasRenderingContext2D where
  "fixed_pitch = \<lparr>measureText = (\<lambda>font t. 8 * real (length t))\<rparr>"

definition ready :: world where
  "ready = (mounted (\<lambda>k. 0))\<lparr>isLoading := False, faceDetector := Some blazeface\<rparr>"

definition face_with :: "real \<Rightarrow> Face" where
  "face_with p = \<lparr>topLeft = Some (0, 0), bottomRight = Some (100, 100), probability = Some [p],
                  landmarks = None, boundingBox = None\<rparr>"

definition frame_with :: "Face list \<Rightarrow> frame_input" where
  "frame_with faces = \<lparr>video = True, canvasEl = True, readyState = 4,
                        getContext = Some fixed_pitch, canvasWidth = 1280, canvasHeight = 720,
                        detection = Some faces\<rparr>"

text \<open>The same component a quarter of a second later on the clock.\<close>

definition ready_later :: world where
  "ready_later = ready\<lparr>clock := (\<lambda>k. 250)\<rparr>"

definition camera_stream :: MediaStream where
  "camera_stream = \<lparr>stream_id = 1, tracks_live = True\<rparr>"

definition camera_granted :: camera_input where
  "camera_granted = \<lparr>cam_video = True, cam_canvas = True, getUserMedia = Some camera_stream,
                      play = True\<rparr>"

definition camera_denied :: camera_input where
  "camera_denied = \<lparr>cam_video = True, cam_canvas = True, getUserMedia = None, play = True\<rparr>"

definition play_rejected :: camera_input where
  "play_rejected = \<lparr>cam_video = True, cam_canvas = True, getUserMedia = Some camera_stream,
                     play = False\<rparr>"

definition no_detectors :: detector_platform where
  "no_detectors = \<lparr>importTfjs = True, importBlazeface = True, tfReady = True,
                    blazefaceLoad = False, windowFaceDetector = False, newFaceDetector = False\<rparr>"

definition recorder_supported :: recording_input where
  "recorder_supported = \<lparr>rec_canvas = True, captureStream = True, newMediaRecorder = True,
                          recorderStart = True\<rparr>"

definition recorder_unsupported :: recording_input where
  "recorder_unsupported = \<lparr>rec_canvas = True, captureStream = True, newMediaRecorder = False,
                            recorderStart = True\<rparr>"

section \<open>Painting and the rest of the state\<close>

lemma only_painted_refl: "only_painted w w"
  by (simp add: only_painted_def)

lemma only_painted_trans: "only_painted a b \<Longrightarrow> only_painted b c \<Longrightarrow> only_painted a c"
  unfolding only_painted_def by (rule trans)

lemma only_painted_box: "only_painted w (drawAdvancedBoundingBox ctx x y wd ht l c w)"
  by (simp add: only_painted_def drawAdvancedBoundingBox_def paint_ops_def)

lemma only_painted_landmarks: "only_painted w (drawFaceLandmarks ctx lms w)"
  by (simp add: only_painted_def drawFaceLandmarks_def paint_ops_def)

lemma only_painted_drawFace: "only_painted w (drawFace d ctx k f w)"
proof (cases "dtype d = tensorflow")
  case True
  obtain x y where tl: "(case topLeft f of Some p \<Rightarrow> p | None \<Rightarrow> (0, 0)) = (x, y)"
    by (cases "case topLeft f of Some p \<Rightarrow> p | None \<Rightarrow> (0::real, 0::real)") simp
  obtain x2 y2 where br: "(case bottomRight f of Some p \<Rightarrow> p | None \<Rightarrow> (0, 0)) = (x2, y2)"
    by (cases "case bottomRight f of Some p \<Rightarrow> p | None \<Rightarrow> (0::real, 0::real)") simp
  show ?thesis
  proof (cases "landmarks f")
    case None
    then show ?thesis
      using True tl br by (simp add: drawFace_def only_painted_box)
  next
    case (Some lms)
    then show ?thesis
      using True tl br
      by (simp add: drawFace_def only_painted_trans[OF only_painted_box only_painted_landmarks])
  qed
next
  case False
  then show ?thesis
    by (cases "boundingBox f") (simp_all add: drawFace_def only_painted_refl only_painted_box)
qed

lemma forEachFace_painted: "only_painted w (fst (forEachFace d ctx k fs (w, t)))"
proof (induction fs arbitrary: k w t)
  case Nil
  show ?case by (simp add: only_painted_refl)
next
  case (Cons f fs)
  show ?case
    using only_painted_trans[OF only_painted_drawFace Cons.IH] by simp
qed

lemma forEachFace_total:
  "snd (forEachFace d ctx k fs (w, t)) = foldl jadd t (map (confidence_of d) fs)"
  by (induction fs arbitrary: k w t) simp_all

lemma only_painted_fields:
  assumes "only_painted w w'"
  shows "faceCount w' = faceCount w" and "detectionStats w' = detectionStats w"
    and "effects w' = effects w" and "faceDetector w' = faceDetector w"
    and "nextHandle w' = nextHandle w" and "pendingFrames w' = pendingFrames w"
    and "animationFrameRef w' = animationFrameRef w"
proof -
  have e: "w'\<lparr>canvas := [], clockReads := 0\<rparr> = w\<lparr>canvas := [], clockReads := 0\<rparr>"
    using assms by (simp add: only_painted_def)
  show "faceCount w' = faceCount w" using arg_cong[OF e, of faceCount] by simp
  show "detectionStats w' = detectionStats w" using arg_cong[OF e, of detectionStats] by simp
  show "effects w' = effects w" using arg_cong[OF e, of effects] by simp
  show "faceDetector w' = faceDetector w" using arg_cong[OF e, of faceDetector] by simp
  show "nextHandle w' = nextHandle w" using arg_cong[OF e, of nextHandle] by simp
  show "pendingFrames w' = pendingFrames w" using arg_cong[OF e, of pendingFrames] by simp
  show "animationFrameRef w' = animationFrameRef w" using arg_cong[OF e, of animationFrameRef] by simp
qed


lemma frameBody_found:
  assumes "detect d i = Some faces"
  shows "faceCount (frameBody d ctx i w) = int (length faces)"
    and "detectionStats (frameBody d ctx i w) =
           (if faces = [] then detectionStats w
            else \<lparr>totalDetections = totalDetections (detectionStats w) + int (length faces),
                  avgConfidence = mean_confidence d faces\<rparr>)"
    and "effects (frameBody d ctx i w) = effects w"
    and "faceDetector (frameBody d ctx i w) = faceDetector w"
    and "nextHandle (frameBody d ctx i w) = nextHandle w"
    and "pendingFrames (frameBody d ctx i w) = pendingFrames w"
proof -
  define w2 where "w2 = (paint_ops [ClearRect 0 0 (canvasWidth i) (canvasHeight i),
                          DrawImage 0 0 (canvasWidth i) (canvasHeight i)] w)\<lparr>faceCount := int (length faces)\<rparr>"
  define w3 where "w3 = fst (forEachFace d ctx 0 faces (w2, Num 0))"
  have p: "only_painted w2 w3"
    unfolding w3_def by (rule forEachFace_painted)
  have t: "snd (forEachFace d ctx 0 faces (w2, Num 0)) = foldl jadd (Num 0) (map (confidence_of d) faces)"
    by (rule forEachFace_total)
  have fb: "frameBody d ctx i w =
      (if faces = [] then w3
       else w3\<lparr>detectionStats :=
                 \<lparr>totalDetections = totalDetections (detectionStats w3) + int (length faces),
                  avgConfidence = mean_confidence d faces\<rparr>\<rparr>)"
    using assms t by (simp add: frameBody_def Let_def split_beta w2_def w3_def mean_confidence_def)
  have w2f: "faceCount w2 = int (length faces)" "detectionStats w2 = detectionStats w"
    "effects w2 = effects w" "faceDetector w2 = faceDetector w" "nextHandle w2 = nextHandle w"
    "pendingFrames w2 = pendingFrames w"
    by (simp_all add: w2_def paint_ops_def)
  show "faceCount (frameBody d ctx i w) = int (length faces)"
    using only_painted_fields(1)[OF p] w2f by (simp add: fb)
  show "detectionStats (frameBody d ctx i w) =
           (if faces = [] then detectionStats w
            else \<lparr>totalDetections = totalDetections (detectionStats w) + int (length faces),
                  avgConfidence = mean_confidence d faces\<rparr>)"
    using only_painted_fields(2)[OF p] w2f by (simp add: fb)
  show "effects (frameBody d ctx i w) = effects w"
    using only_painted_fields(3)[OF p] w2f by (simp add: fb)
  show "faceDetector (frameBody d ctx i w) = faceDetector w"
    using only_painted_fields(4)[OF p] w2f by (simp add: fb)
  show "nextHandle (frameBody d ctx i w) = nextHandle w"
    using only_painted_fields(5)[OF p] w2f by (simp add: fb)
  show "pendingFrames (frameBody d ctx i w) = pendingFrames w"
    using only_painted_fields(6)[OF p] w2f by (simp add: fb)
qed

lemma frameBody_rejected:
  assumes "detect d i = None"
  shows "faceCount (frameBody d ctx i w) = faceCount w"
    and "detectionStats (frameBody d ctx i w) = detectionStats w"
    and "effects (frameBody d ctx i w) = effects w @ [ConsoleWarn ''Face detection error:'']"
    and "faceDetector (frameBody d ctx i w) = faceDetector w"
    and "nextHandle (frameBody d ctx i w) = nextHandle w"
    and "pendingFrames (frameBody d ctx i w) = pendingFrames w"
  using assms by (simp_all add: frameBody_def Let_def paint_ops_def perform_def)

lemma requestAnimationFrame_fields:
  "faceCount (requestAnimationFrame w) = faceCount w"
  "detectionStats (requestAnimationFrame w) = detectionStats w"
  "faceDetector (requestAnimationFrame w) = faceDetector w"
  "effects (requestAnimationFrame w) = effects w @ [RequestAnimationFrame (nextHandle w)]"
  "pendingFrames (requestAnimationFrame w) = pendingFrames w @ [nextHandle w]"
  "animationFrameRef (requestAnimationFrame w) = nextHandle w"
  "nextHandle (requestAnimationFrame w) = Suc (nextHandle w)"
  by (simp_all add: requestAnimationFrame_def perform_def Let_def)

text \<open>One invocation of the loop, by what it detected.\<close>

lemma detectFaces_cases:
  "(frame_faces (faceDetector w) i = None \<and>
      (detectFaces i w = requestAnimationFrame w \<or>
       (\<exists>d ctx. faceDetector w = Some d \<and> detect d i = None \<and>
          detectFaces i w = requestAnimationFrame (frameBody d ctx i w)))) \<or>
   (\<exists>d ctx faces. faceDetector w = Some d \<and> detect d i = Some faces \<and>
      frame_faces (faceDetector w) i = Some faces \<and>
      detectFaces i w = requestAnimationFrame (frameBody d ctx i w))"
  by (cases "detect (the (faceDetector w)) i")
     (auto simp: detectFaces_def frame_faces_def split: option.splits)

lemma detectFaces_stats:
  "detectionStats (detectFaces i w) =
     (case (faceDetector w, frame_faces (faceDetector w) i) of
        (Some d, Some (face # faces)) \<Rightarrow>
          \<lparr>totalDetections = totalDetections (detectionStats w) + int (length (face # faces)),
           avgConfidence = mean_confidence d (face # faces)\<rparr>
      | _ \<Rightarrow> detectionStats w)"
  using detectFaces_cases[of w i]
  by (auto simp: requestAnimationFrame_fields frameBody_found frameBody_rejected
           split: option.splits list.splits)

lemma detectFaces_faceCount:
  "faceCount (detectFaces i w) =
     (case frame_faces (faceDetector w) i of
        Some faces \<Rightarrow> int (length faces)
      | None \<Rightarrow> faceCount w)"
  using detectFaces_cases[of w i]
  by (auto simp: requestAnimationFrame_fields frameBody_found frameBody_rejected
           split: option.splits list.splits)

lemma detectFaces_faceDetector: "faceDetector (detectFaces i w) = faceDetector w"
  using detectFaces_cases[of w i]
  by (auto simp: requestAnimationFrame_fields frameBody_found frameBody_rejected)

section \<open>Statistics and the loop\<close>

lemma run_snoc: "run w (evs @ [e]) = step (run w evs) e"
  by (simp add: run_def)

lemma run_faceDetector: "faceDetector (run w evs) = faceDetector w"
proof (induction evs rule: rev_induct)
  case Nil
  show ?case by (simp add: run_def)
next
  case (snoc e evs)
  then show ?case
    by (cases e) (simp_all add: run_snoc detectFaces_faceDetector resetStats_def)
qed

text \<open>
  \<open>totalDetections\<close> counts the detections since the last reset, so the list
  \<open>detections_since_reset\<close> is what the counter has accumulated; and \<open>mean_confidence\<close>
  is the arithmetic mean when every confidence is a number.
\<close>

lemma detections_snoc:
  "detections_since_reset fd acc (evs @ [e]) =
     (case e of
        ResetStats \<Rightarrow> []
      | Frame i \<Rightarrow> detections_since_reset fd acc evs
                    @ (case frame_faces fd i of Some faces \<Rightarrow> faces | None \<Rightarrow> []))"
  by (induction fd acc evs rule: detections_since_reset.induct) (simp_all split: event.splits)

lemma detectFaces_total:
  "totalDetections (detectionStats (detectFaces i w)) =
     totalDetections (detectionStats w)
       + int (length (case frame_faces (faceDetector w) i of Some faces \<Rightarrow> faces | None \<Rightarrow> []))"
  by (simp add: detectFaces_stats frame_faces_def split: option.splits list.splits)

lemma totalDetections_counts_detections:
  "totalDetections (detectionStats (run w evs)) =
     (if ResetStats \<in> set evs then 0 else totalDetections (detectionStats w))
       + int (length (detections_since_reset (faceDetector w) [] evs))"
proof (induction evs rule: rev_induct)
  case Nil
  show ?case by (simp add: run_def)
next
  case (snoc e evs)
  show ?case
  proof (cases e)
    case ResetStats
    then show ?thesis by (simp add: run_snoc resetStats_def detections_snoc)
  next
    case (Frame i)
    then show ?thesis
      using snoc.IH by (simp add: run_snoc detectFaces_total run_faceDetector detections_snoc)
  qed
qed

lemma sum_confidences:
  "foldl jadd (Num a) (map Num rs) = Num (a + sum_list rs)"
  by (induction rs arbitrary: a) (simp_all add: add.assoc)

lemma mean_confidence_is_the_mean:
  assumes "map (confidence_of d) faces = map Num rs"
  shows "mean_confidence d faces = Num (sum_list rs / real (length rs))"
proof -
  have "length faces = length rs"
    using assms by (metis length_map)
  then show ?thesis
    using assms by (simp add: mean_confidence_def sum_confidences)
qed

text \<open>
  Claim C1, as amended. After any sequence of frames and resets, \<open>avgConfidence\<close> is the
  mean of the confidences of the most recent frame that detected at least one face, when no
  reset came after it; it is \<open>0\<close> when a reset came last; it is the starting value when
  neither happened. Frames that detect nothing, or fail, leave it as it is.
\<close>

theorem avgConfidence_latest_frame:
  "avgConfidence (detectionStats (run w evs)) =
     latest_frame_average (faceDetector w) (avgConfidence (detectionStats w)) (rev evs)"
proof (induction evs rule: rev_induct)
  case Nil
  show ?case by (simp add: run_def)
next
  case (snoc e evs)
  show ?case
  proof (cases e)
    case ResetStats
    then show ?thesis by (simp add: run_snoc resetStats_def)
  next
    case (Frame i)
    then show ?thesis
      using snoc.IH
      by (simp add: run_snoc detectFaces_stats run_faceDetector split: option.splits list.splits)
  qed
qed

text \<open>
  Claim C1 as stated fails. Two frames, one face each, with confidences \<open>1/2\<close> and
  \<open>1\<close>: two detections are counted, their mean is \<open>3/4\<close>, and \<open>avgConfidence\<close> is
  \<open>1\<close>, the mean of the second frame alone.
\<close>

theorem avgConfidence_not_running_average:
  "totalDetections (detectionStats
      (run ready [Frame (frame_with [face_with (1 / 2)]), Frame (frame_with [face_with 1])])) = 2 \<and>
   avgConfidence (detectionStats
      (run ready [Frame (frame_with [face_with (1 / 2)]), Frame (frame_with [face_with 1])])) = Num 1 \<and>
   running_average blazeface
      [Frame (frame_with [face_with (1 / 2)]), Frame (frame_with [face_with 1])] = Num (3 / 4)"
proof -
  have fd: "faceDetector ready = Some blazeface"
    by (simp add: ready_def)
  have ff: "\<And>fs. frame_faces (Some blazeface) (frame_with fs) = Some fs"
    by (simp add: frame_faces_def frame_with_def detect_def blazeface_def)
  have c: "\<And>p. confidence_of blazeface (face_with p) = Num p"
    by (simp add: confidence_of_def blazeface_def face_with_def)
  have s0: "detectionStats ready = \<lparr>totalDetections = 0, avgConfidence = Num 0\<rparr>"
    by (simp add: ready_def mounted_def)
  show ?thesis
    by (simp add: run_def detectFaces_stats detectFaces_faceDetector fd ff c s0
          mean_confidence_def running_average_def)
qed

text \<open>
  Claim C5. From a state whose counters are not negative, every state reached by frames and
  resets has \<open>faceCount \<ge> 0\<close> and \<open>totalDetections \<ge> 0\<close>; a further frame never lowers
  \<open>totalDetections\<close>, and a reset sets it to \<open>0\<close>.
\<close>

theorem counters_nonnegative:
  assumes "0 \<le> faceCount w" and "0 \<le> totalDetections (detectionStats w)"
  shows "0 \<le> faceCount (run w evs) \<and>
         0 \<le> totalDetections (detectionStats (run w evs)) \<and>
         totalDetections (detectionStats (run w evs))
           \<le> totalDetections (detectionStats (step (run w evs) (Frame i))) \<and>
         totalDetections (detectionStats (step (run w evs) ResetStats)) = 0"
proof -
  have inv: "0 \<le> faceCount (run w evs) \<and> 0 \<le> totalDetections (detectionStats (run w evs))"
  proof (induction evs rule: rev_induct)
    case Nil
    show ?case using assms by (simp add: run_def)
  next
    case (snoc e evs)
    show ?case
    proof (cases e)
      case ResetStats
      then show ?thesis using snoc.IH by (simp add: run_snoc resetStats_def)
    next
      case (Frame j)
      then show ?thesis
        using snoc.IH
        by (simp add: run_snoc detectFaces_stats detectFaces_faceCount
              split: option.splits list.splits)
    qed
  qed
  have mono: "totalDetections (detectionStats (run w evs))
           \<le> totalDetections (detectionStats (step (run w evs) (Frame i)))"
    by (simp add: detectFaces_stats split: option.splits list.splits)
  have reset: "totalDetections (detectionStats (step (run w evs) ResetStats)) = 0"
    by (simp add: resetStats_def)
  show ?thesis using inv mono reset by simp
qed

theorem counters_nonnegative_witness:
  "0 \<le> faceCount (run ready [Frame (frame_with [face_with 1, face_with 1]), ResetStats]) \<and>
   0 \<le> totalDetections (detectionStats
          (run ready [Frame (frame_with [face_with 1, face_with 1]), ResetStats])) \<and>
   totalDetections (detectionStats
          (run ready [Frame (frame_with [face_with 1, face_with 1]), ResetStats]))
     \<le> totalDetections (detectionStats
          (step (run ready [Frame (frame_with [face_with 1, face_with 1]), ResetStats])
             (Frame (frame_with [face_with 1])))) \<and>
   totalDetections (detectionStats
          (step (run ready [Frame (frame_with [face_with 1, face_with 1]), ResetStats])
             ResetStats)) = 0"
proof -
  have a: "0 \<le> faceCount ready"
    by (simp add: ready_def mounted_def)
  have b: "0 \<le> totalDetections (detectionStats ready)"
    by (simp add: ready_def mounted_def)
  show ?thesis
    by (rule counters_nonnegative[OF a b])
qed

text \<open>
  Claim C8. A frame that passes the checks and whose detection returns no face leaves
  \<open>detectionStats\<close> as it was, so the average shown may be that of an earlier frame, and
  sets \<open>faceCount\<close> to \<open>0\<close>.
\<close>

theorem no_faces_frame:
  assumes "video i" and "canvasEl i" and "readyState i = 4"
    and "faceDetector w = Some d" and "getContext i = Some ctx" and "detect d i = Some []"
  shows "detectionStats (detectFaces i w) = detectionStats w \<and> faceCount (detectFaces i w) = 0"
proof -
  have "frame_faces (faceDetector w) i = Some []"
    using assms by (simp add: frame_faces_def)
  then show ?thesis
    by (simp add: detectFaces_stats detectFaces_faceCount assms(4))
qed

theorem no_faces_frame_witness:
  "detectionStats (detectFaces (frame_with []) ready) = detectionStats ready \<and>
   faceCount (detectFaces (frame_with []) ready) = 0"
proof -
  have "video (frame_with [])" and "canvasEl (frame_with [])" and "readyState (frame_with []) = 4"
    by (simp_all add: frame_with_def)
  moreover have "faceDetector ready = Some blazeface"
    by (simp add: ready_def)
  moreover have "getContext (frame_with []) = Some fixed_pitch"
    by (simp add: frame_with_def)
  moreover have "detect blazeface (frame_with []) = Some []"
    by (simp add: detect_def blazeface_def frame_with_def)
  ultimately show ?thesis
    by (rule no_faces_frame)
qed

lemma detectFaces_effects:
  "\<exists>warned. effects (detectFaces i w) =
      effects w @ (if warned then [ConsoleWarn ''Face detection error:''] else [])
        @ [RequestAnimationFrame (nextHandle w)]"
proof -
  consider "detectFaces i w = requestAnimationFrame w"
    | d ctx where "detect d i = None" "detectFaces i w = requestAnimationFrame (frameBody d ctx i w)"
    | d ctx faces where "detect d i = Some faces" "detectFaces i w = requestAnimationFrame (frameBody d ctx i w)"
    using detectFaces_cases[of w i] by auto
  then show ?thesis
  proof cases
    case 1
    then have "effects (detectFaces i w) = effects w @ (if False then [ConsoleWarn ''Face detection error:''] else [])
        @ [RequestAnimationFrame (nextHandle w)]"
      by (simp add: requestAnimationFrame_fields)
    then show ?thesis by blast
  next
    case 2
    then have "effects (detectFaces i w) = effects w @ (if True then [ConsoleWarn ''Face detection error:''] else [])
        @ [RequestAnimationFrame (nextHandle w)]"
      by (simp add: requestAnimationFrame_fields frameBody_rejected)
    then show ?thesis by blast
  next
    case 3
    then have "effects (detectFaces i w) = effects w @ (if False then [ConsoleWarn ''Face detection error:''] else [])
        @ [RequestAnimationFrame (nextHandle w)]"
      by (simp add: requestAnimationFrame_fields frameBody_found)
    then show ?thesis by blast
  qed
qed

lemma detectFaces_pending:
  "pendingFrames (detectFaces i w) = pendingFrames w @ [nextHandle w]"
  using detectFaces_cases[of w i]
  by (auto simp: requestAnimationFrame_fields frameBody_found frameBody_rejected)

text \<open>
  Claim C9. Every invocation of \<^verbatim>\<open>detectFaces\<close>, whichever way it takes, requests
  exactly one animation frame, which the scheduler then holds.
\<close>

theorem detectFaces_requests_one_frame:
  "length (filter is_request (performed w (detectFaces i w))) = 1 \<and>
   pendingFrames (detectFaces i w) = pendingFrames w @ [nextHandle w]"
proof -
  obtain warned where "effects (detectFaces i w) =
      effects w @ (if warned then [ConsoleWarn ''Face detection error:''] else [])
        @ [RequestAnimationFrame (nextHandle w)]"
    using detectFaces_effects by blast
  then have "length (filter is_request (performed w (detectFaces i w))) = 1"
    by (simp add: performed_def)
  then show ?thesis by (simp add: detectFaces_pending)
qed

section \<open>The bootstrap\<close>

lemma perform_perform: "perform es (perform es' w) = perform (es' @ es) w"
  by (simp add: perform_def)

lemma performed_perform: "performed w (perform es w) = es"
  by (simp add: performed_def perform_def)

lemma tensorflow_result:
  "fst (initializeTensorFlowDetection p w) =
     (importTfjs p \<and> importBlazeface p \<and> tfReady p \<and> blazefaceLoad p)"
  by (simp add: initializeTensorFlowDetection_def tensorflow_failed_def Let_def)

lemma native_result:
  "fst (initializeNativeDetection p w) = (windowFaceDetector p \<and> newFaceDetector p)"
  by (simp add: initializeNativeDetection_def Let_def)

lemma tensorflow_succeeds:
  assumes "fst (initializeTensorFlowDetection p w)"
  shows "snd (initializeTensorFlowDetection p w) =
           (perform [ImportTfjs, ImportBlazeface, TfReady, BlazefaceLoad] w)
             \<lparr>faceDetector := Some \<lparr>dtype = tensorflow, has_detectFaces = True, has_detect = False\<rparr>,
              isLoading := False\<rparr>"
proof -
  have "importTfjs p" "importBlazeface p" "tfReady p" "blazefaceLoad p"
    using assms by (simp_all add: tensorflow_result)
  then show ?thesis
    by (simp add: initializeTensorFlowDetection_def Let_def perform_perform)
qed

lemma tensorflow_fails:
  assumes "\<not> fst (initializeTensorFlowDetection p w)"
  shows "\<exists>es. snd (initializeTensorFlowDetection p w) = perform (ImportTfjs # es) w \<and>
           distinct (ImportTfjs # es) \<and>
           set es \<subseteq> {ImportBlazeface, TfReady, BlazefaceLoad,
                      ConsoleWarn ''TensorFlow.js initialization failed:''}"
proof -
  let ?warn = "ConsoleWarn ''TensorFlow.js initialization failed:''"
  consider "\<not> importTfjs p"
    | "importTfjs p" "\<not> importBlazeface p"
    | "importTfjs p" "importBlazeface p" "\<not> tfReady p"
    | "importTfjs p" "importBlazeface p" "tfReady p" "\<not> blazefaceLoad p"
    using assms by (auto simp: tensorflow_result)
  then show ?thesis
  proof cases
    case 1
    then have "snd (initializeTensorFlowDetection p w) = perform (ImportTfjs # [?warn]) w"
      by (simp add: initializeTensorFlowDetection_def tensorflow_failed_def Let_def perform_perform)
    then show ?thesis by (intro exI[of _ "[?warn]"]) simp
  next
    case 2
    then have "snd (initializeTensorFlowDetection p w) = perform (ImportTfjs # [ImportBlazeface, ?warn]) w"
      by (simp add: initializeTensorFlowDetection_def tensorflow_failed_def Let_def perform_perform)
    then show ?thesis by (intro exI[of _ "[ImportBlazeface, ?warn]"]) simp
  next
    case 3
    then have "snd (initializeTensorFlowDetection p w) =
        perform (ImportTfjs # [ImportBlazeface, TfReady, ?warn]) w"
      by (simp add: initializeTensorFlowDetection_def tensorflow_failed_def Let_def perform_perform)
    then show ?thesis by (intro exI[of _ "[ImportBlazeface, TfReady, ?warn]"]) simp
  next
    case 4
    then have "snd (initializeTensorFlowDetection p w) =
        perform (ImportTfjs # [ImportBlazeface, TfReady, BlazefaceLoad, ?warn]) w"
      by (simp add: initializeTensorFlowDetection_def tensorflow_failed_def Let_def perform_perform)
    then show ?thesis by (intro exI[of _ "[ImportBlazeface, TfReady, BlazefaceLoad, ?warn]"]) simp
  qed
qed

lemma native_succeeds:
  assumes "fst (initializeNativeDetection p w)"
  shows "snd (initializeNativeDetection p w) =
           (perform [ReadWindowFaceDetector, NewFaceDetector] w)
             \<lparr>faceDetector := Some \<lparr>dtype = native, has_detectFaces = False, has_detect = True\<rparr>,
              isLoading := False\<rparr>"
proof -
  have "windowFaceDetector p" "newFaceDetector p"
    using assms by (simp_all add: native_result)
  then show ?thesis
    by (simp add: initializeNativeDetection_def Let_def perform_perform)
qed

lemma native_fails:
  assumes "\<not> fst (initializeNativeDetection p w)"
  shows "\<exists>es. snd (initializeNativeDetection p w) = perform (ReadWindowFaceDetector # es) w \<and>
           distinct (ReadWindowFaceDetector # es) \<and>
           set es \<subseteq> {NewFaceDetector, ConsoleWarn ''Native Face Detection not supported:''}"
proof (cases "windowFaceDetector p")
  case False
  then have "snd (initializeNativeDetection p w) = perform (ReadWindowFaceDetector # []) w"
    by (simp add: initializeNativeDetection_def Let_def)
  then show ?thesis by (intro exI[of _ "[]"]) simp
next
  case True
  then have "\<not> newFaceDetector p"
    using assms by (simp add: native_result)
  then have "snd (initializeNativeDetection p w) =
      perform (ReadWindowFaceDetector #
        [NewFaceDetector, ConsoleWarn ''Native Face Detection not supported:'']) w"
    using True by (simp add: initializeNativeDetection_def Let_def perform_perform)
  then show ?thesis
    by (intro exI[of _ "[NewFaceDetector, ConsoleWarn ''Native Face Detection not supported:'']"]) simp
qed

lemma initializeFaceDetection_unfold:
  "initializeFaceDetection p w =
     (if fst (initializeTensorFlowDetection p (w\<lparr>isLoading := True\<rparr>))
      then snd (initializeTensorFlowDetection p (w\<lparr>isLoading := True\<rparr>))
      else if fst (initializeNativeDetection p
                     (snd (initializeTensorFlowDetection p (w\<lparr>isLoading := True\<rparr>))))
      then snd (initializeNativeDetection p
                     (snd (initializeTensorFlowDetection p (w\<lparr>isLoading := True\<rparr>))))
      else (snd (initializeNativeDetection p
                     (snd (initializeTensorFlowDetection p (w\<lparr>isLoading := True\<rparr>)))))
             \<lparr>error := no_detector_message, isLoading := False\<rparr>)"
  by (simp add: initializeFaceDetection_def split_beta Let_def)

text \<open>
  Claim C2. The bootstrap tries TensorFlow.js first: its first platform call is the import
  of \<^verbatim>\<open>@tensorflow/tfjs\<close>. The native detector is looked for exactly when the
  TensorFlow attempt returned false. The message is set exactly when both attempts returned
  false, and the error is left as it was otherwise. In every outcome \<open>isLoading\<close> ends
  false.
\<close>

theorem bootstrap_two_step:
  "take 1 (performed w (initializeFaceDetection p w)) = [ImportTfjs] \<and>
   (ReadWindowFaceDetector \<in> set (performed w (initializeFaceDetection p w)))
     = (\<not> fst (initializeTensorFlowDetection p (w\<lparr>isLoading := True\<rparr>))) \<and>
   error (initializeFaceDetection p w) =
     (if \<not> fst (initializeTensorFlowDetection p (w\<lparr>isLoading := True\<rparr>)) \<and>
         \<not> fst (initializeNativeDetection p
                  (snd (initializeTensorFlowDetection p (w\<lparr>isLoading := True\<rparr>))))
      then no_detector_message else error w) \<and>
   isLoading (initializeFaceDetection p w) = False"
proof (cases "fst (initializeTensorFlowDetection p (w\<lparr>isLoading := True\<rparr>))")
  case True
  show ?thesis
    using True tensorflow_succeeds[OF True]
    by (simp add: initializeFaceDetection_unfold performed_def perform_def)
next
  case False
  obtain es where es: "snd (initializeTensorFlowDetection p (w\<lparr>isLoading := True\<rparr>)) =
      perform (ImportTfjs # es) (w\<lparr>isLoading := True\<rparr>)"
    "set es \<subseteq> {ImportBlazeface, TfReady, BlazefaceLoad,
                      ConsoleWarn ''TensorFlow.js initialization failed:''}"
    using tensorflow_fails[OF False] by blast
  let ?w1 = "snd (initializeTensorFlowDetection p (w\<lparr>isLoading := True\<rparr>))"
  show ?thesis
  proof (cases "fst (initializeNativeDetection p ?w1)")
    case True
    show ?thesis
      using False True native_succeeds[OF True] es
      by (simp add: initializeFaceDetection_unfold performed_def perform_def)
  next
    case nf: False
    obtain ns where ns: "snd (initializeNativeDetection p ?w1) =
        perform (ReadWindowFaceDetector # ns) ?w1"
      using native_fails[OF nf] by blast
    show ?thesis
      using False nf ns es
      by (simp add: initializeFaceDetection_unfold performed_def perform_def)
  qed
qed

section \<open>Failures, recording and teardown\<close>

text \<open>
  Claim C4, as amended. A rejected \<^verbatim>\<open>getUserMedia\<close>, the absence of both detectors, and
  a \<^verbatim>\<open>MediaRecorder\<close> constructor that throws are each surfaced by their message in
  \<open>error\<close>. The state is otherwise as before the call (with \<open>isLoading\<close> false after the
  bootstrap), the platform calls were made once each, and nothing is retried.
\<close>

theorem failures_set_the_message:
  "(cam_video i \<and> cam_canvas i \<and> \<not> isLoading w \<and> faceDetector w \<noteq> None \<and>
      getUserMedia i = None \<longrightarrow>
      initializeCamera i w =
        w\<lparr>error := camera_message,
          effects := effects w @ [GetUserMedia, ConsoleError ''Error accessing camera:'']\<rparr>) \<and>
   (\<not> fst (initializeTensorFlowDetection p (w\<lparr>isLoading := True\<rparr>)) \<and>
      \<not> fst (initializeNativeDetection p
               (snd (initializeTensorFlowDetection p (w\<lparr>isLoading := True\<rparr>)))) \<longrightarrow>
      (\<exists>es. distinct es \<and>
         initializeFaceDetection p w =
           w\<lparr>isLoading := False, error := no_detector_message, effects := effects w @ es\<rparr>)) \<and>
   (rec_canvas r \<and> captureStream r \<and> \<not> newMediaRecorder r \<longrightarrow>
      startRecording r w =
        w\<lparr>error := recording_message,
          effects := effects w @ [CaptureStream, NewMediaRecorder, ConsoleError ''Recording error:'']\<rparr>)"
proof (intro conjI impI)
  assume "cam_video i \<and> cam_canvas i \<and> \<not> isLoading w \<and> faceDetector w \<noteq> None \<and>
      getUserMedia i = None"
  then show "initializeCamera i w =
        w\<lparr>error := camera_message,
          effects := effects w @ [GetUserMedia, ConsoleError ''Error accessing camera:'']\<rparr>"
    by (simp add: initializeCamera_def camera_failed_def perform_def)
next
  let ?w0 = "w\<lparr>isLoading := True\<rparr>"
  let ?w1 = "snd (initializeTensorFlowDetection p ?w0)"
  assume a: "\<not> fst (initializeTensorFlowDetection p ?w0) \<and> \<not> fst (initializeNativeDetection p ?w1)"
  obtain es where es: "?w1 = perform (ImportTfjs # es) ?w0" "distinct (ImportTfjs # es)"
    "set es \<subseteq> {ImportBlazeface, TfReady, BlazefaceLoad,
                      ConsoleWarn ''TensorFlow.js initialization failed:''}"
    using tensorflow_fails[of p ?w0] a by blast
  obtain ns where ns: "snd (initializeNativeDetection p ?w1) = perform (ReadWindowFaceDetector # ns) ?w1"
    "distinct (ReadWindowFaceDetector # ns)"
    "set ns \<subseteq> {NewFaceDetector, ConsoleWarn ''Native Face Detection not supported:''}"
    using native_fails[of p ?w1] a by blast
  have d: "distinct ((ImportTfjs # es) @ (ReadWindowFaceDetector # ns))"
    using es(2,3) ns(2,3) by auto
  have "initializeFaceDetection p w =
      w\<lparr>isLoading := False, error := no_detector_message,
        effects := effects w @ ((ImportTfjs # es) @ (ReadWindowFaceDetector # ns))\<rparr>"
    using a es(1) ns(1) by (simp add: initializeFaceDetection_unfold perform_def)
  then show "\<exists>es. distinct es \<and>
         initializeFaceDetection p w =
           w\<lparr>isLoading := False, error := no_detector_message, effects := effects w @ es\<rparr>"
    using d by blast
next
  assume "rec_canvas r \<and> captureStream r \<and> \<not> newMediaRecorder r"
  then show "startRecording r w =
        w\<lparr>error := recording_message,
          effects := effects w @ [CaptureStream, NewMediaRecorder, ConsoleError ''Recording error:'']\<rparr>"
    by (simp add: startRecording_def recording_failed_def perform_def Let_def)
qed

theorem failures_set_the_message_witness:
  "initializeCamera camera_denied ready =
     ready\<lparr>error := camera_message,
           effects := effects ready @ [GetUserMedia, ConsoleError ''Error accessing camera:'']\<rparr> \<and>
   (\<exists>es. distinct es \<and>
      initializeFaceDetection no_detectors (mounted (\<lambda>k. 0)) =
        (mounted (\<lambda>k. 0))\<lparr>isLoading := False, error := no_detector_message,
                           effects := effects (mounted (\<lambda>k. 0)) @ es\<rparr>) \<and>
   startRecording recorder_unsupported ready =
     ready\<lparr>error := recording_message,
           effects := effects ready @
             [CaptureStream, NewMediaRecorder, ConsoleError ''Recording error:'']\<rparr>"
proof -
  have a: "cam_video camera_denied \<and> cam_canvas camera_denied \<and> \<not> isLoading ready \<and>
      faceDetector ready \<noteq> None \<and> getUserMedia camera_denied = None"
    by (simp add: camera_denied_def ready_def)
  have b: "\<not> fst (initializeTensorFlowDetection no_detectors ((mounted (\<lambda>k. 0))\<lparr>isLoading := True\<rparr>)) \<and>
      \<not> fst (initializeNativeDetection no_detectors
               (snd (initializeTensorFlowDetection no_detectors ((mounted (\<lambda>k. 0))\<lparr>isLoading := True\<rparr>))))"
    by (simp add: tensorflow_result native_result no_detectors_def)
  have c: "rec_canvas recorder_unsupported \<and> captureStream recorder_unsupported \<and>
      \<not> newMediaRecorder recorder_unsupported"
    by (simp add: recorder_unsupported_def)
  show ?thesis
    using failures_set_the_message[of camera_denied ready no_detectors recorder_unsupported] a c
      failures_set_the_message[of camera_denied "mounted (\<lambda>k. 0)" no_detectors recorder_unsupported] b
    by blast
qed

text \<open>
  Claim C4 as stated fails: a failure can leave the operation half done. When
  \<^verbatim>\<open>video.play()\<close> rejects after the stream was acquired, the same handler sets the
  camera message, and the stream stays attached to the video with the
  \<^verbatim>\<open>loadeddata\<close> listener installed.
\<close>

theorem play_rejection_keeps_the_stream:
  "srcObject ready = None \<and>
   loadedDataListeners ready = 0 \<and>
   error (initializeCamera play_rejected ready) = camera_message \<and>
   srcObject (initializeCamera play_rejected ready) = Some camera_stream \<and>
   loadedDataListeners (initializeCamera play_rejected ready) = 1"
  by (simp add: initializeCamera_def play_rejected_def ready_def mounted_def camera_failed_def
        perform_def Let_def)

text \<open>
  Claim C10. \<^verbatim>\<open>stopRecording\<close> changes nothing when there is no recorder or the
  recorder is inactive. Otherwise it stops the recorder, sets \<open>mediaRecorder\<close> to null and
  \<open>isRecording\<close> to false, and leaves the rest of the state alone.
\<close>

theorem stopRecording_cases:
  "(mediaRecorder w = None \<or> (\<exists>r. mediaRecorder w = Some r \<and> state r = inactive) \<longrightarrow>
      stopRecording w = w) \<and>
   ((\<exists>r. mediaRecorder w = Some r \<and> state r \<noteq> inactive) \<longrightarrow>
      stopRecording w =
        w\<lparr>mediaRecorder := None, isRecording := False, effects := effects w @ [RecorderStop]\<rparr>)"
  by (auto simp: stopRecording_def perform_def)

theorem stopRecording_cases_witness:
  "stopRecording ready = ready \<and>
   stopRecording (startRecording recorder_supported ready) =
     (startRecording recorder_supported ready)
       \<lparr>mediaRecorder := None, isRecording := False,
        effects := effects (startRecording recorder_supported ready) @ [RecorderStop]\<rparr>"
proof -
  have a: "mediaRecorder ready = None"
    by (simp add: ready_def mounted_def)
  have b: "\<exists>r. mediaRecorder (startRecording recorder_supported ready) = Some r \<and> state r \<noteq> inactive"
    by (simp add: startRecording_def recorder_supported_def perform_def Let_def)
  show ?thesis
    using stopRecording_cases[of ready] stopRecording_cases[of "startRecording recorder_supported ready"] a b
    by blast
qed

lemma collected_chunks:
  "foldl (\<lambda>cs d. ondataavailable d cs) acc ds = acc @ filter (\<lambda>d. 0 < blob_size d) ds"
  by (induction ds arbitrary: acc) (simp_all add: ondataavailable_def)

text \<open>
  Claim C7. When the recorder stops, the chunks collected are the non-empty blobs it
  delivered, in the order of arrival; they are assembled into one blob of type
  \<^verbatim>\<open>video/webm\<close>, which is offered as a download whose name ends in \<^verbatim>\<open>.webm\<close>.
\<close>

theorem stop_offers_webm_download:
  "performed w (recording_session ds stamp w) =
     [CreateObjectURL \<lparr>bytes = concat (map bytes (filter (\<lambda>d. 0 < blob_size d) ds)),
                       mime = ''video/webm''\<rparr>,
      AppendAnchor, ClickAnchor (download_name stamp), RemoveAnchor, RevokeObjectURL] \<and>
   suffix ''.webm'' (download_name stamp)"
proof -
  have "suffix ''.webm'' (download_name stamp)"
    unfolding download_name_def by (intro suffixI[of _ "''face-tracking-'' @ map (\<lambda>c. if c = CHR '':'' then CHR ''-'' else c) (take 19 stamp)"]) simp
  then show ?thesis
    by (simp add: recording_session_def onstop_def collected_chunks new_Blob_def performed_perform)
qed

lemma cleanup_srcObject: "srcObject (cleanup w) = srcObject w"
  by (simp add: cleanup_def cancelAnimationFrame_def perform_def)

text \<open>
  Claim C3 does not hold of the code. With the camera acquired and one frame requested,
  the teardown cancels the pending frame and leaves the stream attached with its tracks
  live: \<^verbatim>\<open>cleanup\<close> never touches the stream.
\<close>

theorem teardown_keeps_stream_live:
  "pendingFrames (detectFaces (frame_with []) (cameraEffect camera_granted ready)) = [1] \<and>
   pendingFrames (cleanup (detectFaces (frame_with []) (cameraEffect camera_granted ready))) = [] \<and>
   srcObject (cleanup (detectFaces (frame_with []) (cameraEffect camera_granted ready)))
     = Some \<lparr>stream_id = 1, tracks_live = True\<rparr>"
  by (simp add: cleanup_def cancelAnimationFrame_def cameraEffect_def initializeCamera_def
        camera_granted_def camera_stream_def ready_def mounted_def frame_with_def blazeface_def
        detectFaces_def frameBody_def detect_def requestAnimationFrame_def perform_def
        paint_ops_def Let_def)

section \<open>The draw routines and the clock\<close>

lemma painted_box:
  "painted w (drawAdvancedBoundingBox ctx x y width height label confidence w) =
     boxOps ctx (Date_now w) x y width height label confidence"
  by (simp add: painted_def drawAdvancedBoundingBox_def paint_ops_def)

lemma painted_landmarks:
  "painted w (drawFaceLandmarks ctx lms w) = landmarkOps (Date_now w) lms"
  by (simp add: painted_def drawFaceLandmarks_def paint_ops_def)

text \<open>
  Claim C6, as amended. What a draw routine paints is determined by its arguments and by the
  value \<^verbatim>\<open>Date.now()\<close> returns to it: two invocations with the same arguments in states
  where the clock reads the same paint the same sequence of operations, whatever else
  differs between the states.
\<close>

theorem draw_determined_by_arguments_and_clock:
  assumes "Date_now w = Date_now w'"
  shows "painted w (drawAdvancedBoundingBox ctx x y width height label confidence w) =
           painted w' (drawAdvancedBoundingBox ctx x y width height label confidence w') \<and>
         painted w (drawFaceLandmarks ctx lms w) = painted w' (drawFaceLandmarks ctx lms w')"
  using assms by (simp add: painted_box painted_landmarks)

theorem draw_determined_by_arguments_and_clock_witness:
  "painted ready
     (drawAdvancedBoundingBox fixed_pitch 0 0 100 100 ''Face 1'' (Num 1) ready) =
   painted (requestAnimationFrame ready)
     (drawAdvancedBoundingBox fixed_pitch 0 0 100 100 ''Face 1'' (Num 1)
        (requestAnimationFrame ready)) \<and>
   painted ready (drawFaceLandmarks fixed_pitch [\<lparr>lm_x = 10, lm_y = 20\<rparr>] ready) =
   painted (requestAnimationFrame ready)
     (drawFaceLandmarks fixed_pitch [\<lparr>lm_x = 10, lm_y = 20\<rparr>] (requestAnimationFrame ready))"
proof -
  have "Date_now ready = Date_now (requestAnimationFrame ready)"
    by (simp add: Date_now_def requestAnimationFrame_def perform_def ready_def mounted_def Let_def)
  then show ?thesis
    by (rule draw_determined_by_arguments_and_clock)
qed

lemma scan_line_at_start:
  "boxOps fixed_pitch 0 0 0 100 100 ''Face 1'' (Num 1) ! 28 = MoveTo 0 0"
  by (simp add: boxOps_def Let_def mod1_def)

lemma scan_line_later:
  "boxOps fixed_pitch 250 0 0 100 100 ''Face 1'' (Num 1) ! 28 = MoveTo 0 50"
  by (simp add: boxOps_def Let_def mod1_def)

text \<open>
  Claim C6 as stated fails: the clock is hidden state. The same box drawn at clock readings
  \<open>0\<close> and \<open>250\<close> has its scan line at \<open>y = 0\<close> and at \<open>y = 50\<close>.
\<close>

theorem draw_depends_on_clock:
  "painted ready
     (drawAdvancedBoundingBox fixed_pitch 0 0 100 100 ''Face 1'' (Num 1) ready) ! 28 = MoveTo 0 0 \<and>
   painted ready_later
     (drawAdvancedBoundingBox fixed_pitch 0 0 100 100 ''Face 1'' (Num 1) ready_later) ! 28
       = MoveTo 0 50 \<and>
   painted ready
     (drawAdvancedBoundingBox fixed_pitch 0 0 100 100 ''Face 1'' (Num 1) ready) \<noteq>
   painted ready_later
     (drawAdvancedBoundingBox fixed_pitch 0 0 100 100 ''Face 1'' (Num 1) ready_later)"
proof -
  have a: "Date_now ready = 0"
    by (simp add: Date_now_def ready_def mounted_def)
  have b: "Date_now ready_later = 250"
    by (simp add: Date_now_def ready_later_def)
  have c: "painted ready
     (drawAdvancedBoundingBox fixed_pitch 0 0 100 100 ''Face 1'' (Num 1) ready) ! 28 = MoveTo 0 0"
    by (simp only: painted_box a scan_line_at_start)
  have d: "painted ready_later
     (drawAdvancedBoundingBox fixed_pitch 0 0 100 100 ''Face 1'' (Num 1) ready_later) ! 28
       = MoveTo 0 50"
    by (simp only: painted_box b scan_line_later)
  have "MoveTo 0 0 \<noteq> MoveTo 0 50"
    by simp
  then show ?thesis
    using c d by metis
qed

end
